theory Spec2Isabelle
  imports Complex_Main "HOL-Library.Multiset" "HOL-Library.Log_Nat" "HOL-Library.Monad_Syntax"
begin

section \<open>Numbers, vectors and meshes\<close>

text \<open>
  The program computes with floating-point numbers (NumPy arrays and Python floats).
  Every number is a real here, and the code is read in two ways. The exact reading
  takes \<open>+\<close>, \<open>-\<close>, \<open>*\<close> and \<open>/\<close> as the operations on reals: it says which
  formula the code writes down. The rounded reading of the volume routine, in the
  section on binary floating point, rounds the result of every operation as the program
  does: it says which number the program returns.

  A vertex is a row of three coordinates, a triangle is a row of three vertices
  (\<open>triangle[0]\<close>, \<open>triangle[1]\<close>, \<open>triangle[2]\<close>), and the mesh object carries
  the array \<open>vectors\<close> of its triangles in file order.
\<close>

type_synonym vec3 = "real \<times> real \<times> real"

type_synonym triangle = "vec3 \<times> vec3 \<times> vec3"

record stl_mesh =
  vectors :: "triangle list"

text \<open>\<open>np.cross\<close> and \<open>np.dot\<close> on rows of length three.\<close>

fun np_cross :: "vec3 \<Rightarrow> vec3 \<Rightarrow> vec3" where
  "np_cross (b1, b2, b3) (c1, c2, c3) =
     (b2 * c3 - b3 * c2, b3 * c1 - b1 * c3, b1 * c2 - b2 * c1)"

fun np_dot :: "vec3 \<Rightarrow> vec3 \<Rightarrow> real" where
  "np_dot (a1, a2, a3) (x1, x2, x3) = a1 * x1 + a2 * x2 + a3 * x3"

section \<open>Errors\<close>

text \<open>
  The exceptions the modelled code can raise: \<open>KeyError\<close> from subscripting a
  dictionary with a key it does not hold (the exception carries the key), and
  \<open>ValueError\<close> from a NumPy minimum or maximum over an empty array.
\<close>

datatype py_error = KeyError string | ValueError

section \<open>Material tables\<close>

text \<open>
  The three dictionaries of the source, as association lists in the order the
  literals are written (a Python dictionary iterates in insertion order).
\<close>

definition MATERIAL_DENSITIES :: "(string \<times> real) list" where
  "MATERIAL_DENSITIES =
     [(''14K Gold'', 0.0131),
      (''18K Gold'', 0.0154),
      (''22K Gold'', 0.0174),
      (''24K Gold'', 0.0193),
      (''Silver (925)'', 0.0104),
      (''Platinum (950)'', 0.0214),
      (''Platinum (900)'', 0.0204),
      (''Palladium'', 0.0120),
      (''White Gold (18K)'', 0.0147),
      (''Rose Gold (18K)'', 0.0150)]"

definition MATERIAL_COLORS :: "(string \<times> string) list" where
  "MATERIAL_COLORS =
     [(''14K Gold'', ''#DAA520''),
      (''18K Gold'', ''#FFD700''),
      (''22K Gold'', ''#FFA500''),
      (''24K Gold'', ''#FFD700''),
      (''Silver (925)'', ''#C0C0C0''),
      (''Platinum (950)'', ''#E5E4E2''),
      (''Platinum (900)'', ''#E5E4E2''),
      (''Palladium'', ''#CED0DD''),
      (''White Gold (18K)'', ''#F5F5F5''),
      (''Rose Gold (18K)'', ''#B76E79'')]"

definition MATERIAL_INFO :: "(string \<times> string) list" where
  "MATERIAL_INFO =
     [(''14K Gold'', ''58.3% pure - Common for everyday jewelry''),
      (''18K Gold'', ''75.0% pure - Premium jewelry standard''),
      (''22K Gold'', ''91.7% pure - High-end, investment grade''),
      (''24K Gold'', ''99.9% pure - Pure gold, very soft''),
      (''Silver (925)'', ''92.5% pure - Sterling silver standard''),
      (''Platinum (950)'', ''95.0% pure - Luxury jewelry material''),
      (''Platinum (900)'', ''90.0% pure - Alternative platinum alloy''),
      (''Palladium'', ''95.0% pure - Lighter platinum alternative''),
      (''White Gold (18K)'', ''75.0% pure - Gold with white metals''),
      (''Rose Gold (18K)'', ''75.0% pure - Gold with copper'')]"

text \<open>
  Subscription \<open>d[k]\<close>: the value stored under \<open>k\<close>, or \<open>KeyError(k)\<close>. No key is
  written twice in the three literals, so the first entry found is the only one.
\<close>

definition dict_getitem :: "(string \<times> 'v) list \<Rightarrow> string \<Rightarrow> py_error + 'v" where
  "dict_getitem d k = (case map_of d k of None \<Rightarrow> Inl (KeyError k) | Some v \<Rightarrow> Inr v)"

section \<open>Core functions\<close>

text \<open>
  \<open>calculate_stl_volume\<close>: the loop over \<open>stl_mesh.vectors\<close> with its running
  variable \<open>volume\<close>, started at \<open>0.0\<close>, and the final \<open>abs(volume) / 6.0\<close>.
  This is the exact reading; \<open>calculate_stl_volume_fp\<close> below is the rounded one.
\<close>

fun volume_loop :: "real \<Rightarrow> triangle list \<Rightarrow> real" where
  "volume_loop volume [] = volume"
| "volume_loop volume ((A, B, C) # rest) =
     volume_loop (volume + np_dot A (np_cross B C)) rest"

definition calculate_stl_volume :: "stl_mesh \<Rightarrow> real" where
  "calculate_stl_volume m = \<bar>volume_loop 0 (vectors m)\<bar> / 6"

text \<open>\<open>calculate_weight\<close>: \<open>volume_mm3 * MATERIAL_DENSITIES[material_name]\<close>.\<close>

definition calculate_weight :: "real \<Rightarrow> string \<Rightarrow> py_error + real" where
  "calculate_weight volume_mm3 material_name =
     (case dict_getitem MATERIAL_DENSITIES material_name of
        Inl e \<Rightarrow> Inl e
      | Inr density \<Rightarrow> Inr (volume_mm3 * density))"

text \<open>
  The scalar triple product of the specification, \<open>A \<sqdot> (B \<times> C)\<close>, written out in
  coordinates as the determinant of the three rows.
\<close>

fun triple_product :: "triangle \<Rightarrow> real" where
  "triple_product ((a1, a2, a3), (b1, b2, b3), (c1, c2, c3)) =
     a1 * b2 * c3 + a2 * b3 * c1 + a3 * b1 * c2
       - a1 * b3 * c2 - a2 * b1 * c3 - a3 * b2 * c1"















section \<open>Weight tables\<close>

text \<open>
  A list comprehension \<open>[f(x) for x in xs]\<close> whose body can raise: the first
  exception ends it.
\<close>

fun list_comp :: "('a \<Rightarrow> py_error + 'b) \<Rightarrow> 'a list \<Rightarrow> py_error + 'b list" where
  "list_comp f [] = Inr []"
| "list_comp f (x # xs) =
     (case f x of
        Inl e \<Rightarrow> Inl e
      | Inr y \<Rightarrow> (case list_comp f xs of Inl e \<Rightarrow> Inl e | Inr ys \<Rightarrow> Inr (y # ys)))"

text \<open>
  \<open>create_comparison_chart\<close>: the data handed to the bar chart. The formatted labels
  and the layout are presentation and are left out.
\<close>

record bar_chart =
  bar_x :: "string list"
  bar_y :: "real list"
  marker_color :: "string list"
  customdata :: "real list"

definition create_comparison_chart :: "real \<Rightarrow> py_error + bar_chart" where
  "create_comparison_chart volume =
     (let materials = map fst MATERIAL_DENSITIES in
      case list_comp (calculate_weight volume) materials of
        Inl e \<Rightarrow> Inl e
      | Inr weights \<Rightarrow>
          (case list_comp (dict_getitem MATERIAL_COLORS) materials of
             Inl e \<Rightarrow> Inl e
           | Inr colors \<Rightarrow>
               Inr \<lparr>bar_x = materials,
                    bar_y = weights,
                    marker_color = colors,
                    customdata = map (\<lambda>w. w / 31.1035) weights\<rparr>))"

text \<open>
  The detailed table of \<open>main\<close>: the loop over \<open>MATERIAL_DENSITIES.items()\<close> that
  appends one row per material to \<open>weight_data\<close>. The rows hold the numbers the loop
  computes; the source stores them formatted to four decimals.
\<close>

record weight_row =
  row_material :: string
  row_density :: real
  row_weight_g :: real
  row_troy_oz :: real
  row_dwt :: real
  row_info :: string

fun weight_table_loop ::
  "real \<Rightarrow> (string \<times> real) list \<Rightarrow> weight_row list \<Rightarrow> py_error + weight_row list" where
  "weight_table_loop volume [] weight_data = Inr weight_data"
| "weight_table_loop volume ((material, density) # items) weight_data =
     (case calculate_weight volume material of
        Inl e \<Rightarrow> Inl e
      | Inr weight_g \<Rightarrow>
          (case dict_getitem MATERIAL_INFO material of
             Inl e \<Rightarrow> Inl e
           | Inr info \<Rightarrow>
               weight_table_loop volume items
                 (weight_data @
                    [\<lparr>row_material = material,
                      row_density = density,
                      row_weight_g = weight_g,
                      row_troy_oz = weight_g / 31.1035,
                      row_dwt = weight_g / 1.55517,
                      row_info = info\<rparr>])))"

definition weight_table :: "real \<Rightarrow> py_error + weight_row list" where
  "weight_table volume = weight_table_loop volume MATERIAL_DENSITIES []"

text \<open>
  The quick calculator of \<open>main\<close>: \<open>calc_weight\<close>, \<open>calc_troy\<close> and \<open>calc_dwt\<close>
  from the chosen volume and material.
\<close>

definition quick_calculator :: "real \<Rightarrow> string \<Rightarrow> py_error + real \<times> real \<times> real" where
  "quick_calculator calc_volume calc_material =
     (case calculate_weight calc_volume calc_material of
        Inl e \<Rightarrow> Inl e
      | Inr calc_weight \<Rightarrow> Inr (calc_weight, calc_weight / 31.1035, calc_weight / 1.55517))"

section \<open>Meshes of the specification\<close>









section \<open>Binary floating point\<close>

text \<open>
  A binary format has a precision \<open>p\<close> (the number of significant bits) and an
  exponent range from \<open>emin\<close> to \<open>emax\<close>: binary32 has 24 bits and exponents from
  -126 to 127, binary64 has 53 bits and exponents from -1022 to 1023. The result of an
  operation is the exact result rounded to the nearest number of the format, to the one
  with an even last bit when two are equally near. Numbers below \<open>2 ^ emin\<close> in size
  keep the spacing of that exponent (subnormal numbers). A rounded result of size
  \<open>2 ^ (emax + 1)\<close> or more is an infinity. The routine modelled here only multiplies,
  adds, subtracts, takes an absolute value and divides by six; none of these turns an
  infinity or a NaN back into a finite number. So \<open>None\<close> stands for a result that is
  not a finite number, and \<open>Some x\<close> for the finite number \<open>x\<close>.

  \<open>ilog2 a\<close> is the exponent of a positive \<open>a\<close>: the integer \<open>e\<close> with
  \<open>2 ^ e \<le> a < 2 ^ (e + 1)\<close>.
\<close>

definition pow2 :: "int \<Rightarrow> real" where
  "pow2 e = (if 0 \<le> e then 2 ^ nat e else 1 / 2 ^ nat (- e))"

definition ilog2 :: "real \<Rightarrow> int" where
  "ilog2 a = (if 1 \<le> a then bitlen \<lfloor>a\<rfloor> - 1 else - bitlen (\<lceil>1 / a\<rceil> - 1))"

definition nearest_even :: "real \<Rightarrow> int \<Rightarrow> int" where
  "nearest_even k n =
     (if k - of_int n < 1 / 2 then n
      else if 1 / 2 < k - of_int n then n + 1
      else if even n then n else n + 1)"

definition round_quantum :: "real \<Rightarrow> real \<Rightarrow> real" where
  "round_quantum q a = of_int (nearest_even (a / q) \<lfloor>a / q\<rfloor>) * q"

definition check_range :: "int \<Rightarrow> real \<Rightarrow> real \<Rightarrow> real option" where
  "check_range emax s r = (if pow2 (emax + 1) \<le> r then None else Some (s * r))"

definition round_fl :: "nat \<Rightarrow> int \<Rightarrow> int \<Rightarrow> real \<Rightarrow> real option" where
  "round_fl p emin emax x =
     (if x = 0 then Some 0
      else check_range emax (sgn x)
             (round_quantum (pow2 (max emin (ilog2 \<bar>x\<bar>) - int p + 1)) \<bar>x\<bar>))"

definition f32 :: "real \<Rightarrow> real option" where
  "f32 = round_fl 24 (- 126) 127"

definition f64 :: "real \<Rightarrow> real option" where
  "f64 = round_fl 53 (- 1022) 1023"

text \<open>
  The rounded reading of \<open>calculate_stl_volume\<close>. The rows of \<open>stl_mesh.vectors\<close>
  are binary32 numbers, so \<open>np.cross(B, C)\<close> rounds each product and each difference
  to binary32, and \<open>np.dot\<close> rounds each product and each partial sum, taken from left
  to right, to binary32. The running variable \<open>volume\<close> starts as the Python float
  \<open>0.0\<close>; after \<open>volume += ...\<close> with a binary32 scalar it is a binary64 or a
  binary32 number, depending on the promotion rules of the NumPy version. The rounding
  \<open>acc\<close> of the running sum and of the final \<open>abs(volume) / 6.0\<close> is therefore a
  parameter, to be taken as \<open>f64\<close> or \<open>f32\<close>.
\<close>

fun np_cross_f32 :: "vec3 \<Rightarrow> vec3 \<Rightarrow> vec3 option" where
  "np_cross_f32 (b1, b2, b3) (c1, c2, c3) =
     do {
       p1 \<leftarrow> f32 (b2 * c3); q1 \<leftarrow> f32 (b3 * c2); x \<leftarrow> f32 (p1 - q1);
       p2 \<leftarrow> f32 (b3 * c1); q2 \<leftarrow> f32 (b1 * c3); y \<leftarrow> f32 (p2 - q2);
       p3 \<leftarrow> f32 (b1 * c2); q3 \<leftarrow> f32 (b2 * c1); z \<leftarrow> f32 (p3 - q3);
       Some (x, y, z)
     }"

fun np_dot_f32 :: "vec3 \<Rightarrow> vec3 \<Rightarrow> real option" where
  "np_dot_f32 (a1, a2, a3) (x1, x2, x3) =
     do {
       t1 \<leftarrow> f32 (a1 * x1); t2 \<leftarrow> f32 (a2 * x2); s \<leftarrow> f32 (t1 + t2);
       t3 \<leftarrow> f32 (a3 * x3);
       f32 (s + t3)
     }"

fun volume_loop_fp ::
  "(real \<Rightarrow> real option) \<Rightarrow> real \<Rightarrow> triangle list \<Rightarrow> real option" where
  "volume_loop_fp acc volume [] = Some volume"
| "volume_loop_fp acc volume ((A, B, C) # rest) =
     do {
       n \<leftarrow> np_cross_f32 B C;
       d \<leftarrow> np_dot_f32 A n;
       volume' \<leftarrow> acc (volume + d);
       volume_loop_fp acc volume' rest
     }"

definition calculate_stl_volume_fp :: "(real \<Rightarrow> real option) \<Rightarrow> stl_mesh \<Rightarrow> real option" where
  "calculate_stl_volume_fp acc m =
     do { volume \<leftarrow> volume_loop_fp acc 0 (vectors m); acc (\<bar>volume\<bar> / 6) }"

section \<open>Auxiliary notions\<close>


definition table_row :: "real \<Rightarrow> string \<times> real \<Rightarrow> weight_row" where
  "table_row v item =
     \<lparr>row_material = fst item,
      row_density = snd item,
      row_weight_g = v * snd item,
      row_troy_oz = v * snd item / 31.1035,
      row_dwt = v * snd item / 1.55517,
      row_info = the (map_of MATERIAL_INFO (fst item))\<rparr>"

section \<open>Properties of the volume loop\<close>

lemma dot_cross_triple: "np_dot A (np_cross B C) = triple_product (A, B, C)"
  by (cases A, cases B, cases C) (simp add: algebra_simps)

lemma volume_loop_sum:
  "volume_loop acc ts = acc + sum_list (map triple_product ts)"
proof (induction ts arbitrary: acc)
  case Nil
  show ?case by simp
next
  case (Cons t ts)
  obtain A B C where t: "t = (A, B, C)" by (cases t) auto
  show ?case
    unfolding t by (simp add: Cons.IH dot_cross_triple del: triple_product.simps)
qed

section \<open>Dictionaries and comprehensions\<close>


lemma distinct_density_keys: "distinct (map fst MATERIAL_DENSITIES)"
  by (simp add: MATERIAL_DENSITIES_def)

lemma color_keys: "map fst MATERIAL_COLORS = map fst MATERIAL_DENSITIES"
  by (simp add: MATERIAL_COLORS_def MATERIAL_DENSITIES_def)

lemma info_keys: "map fst MATERIAL_INFO = map fst MATERIAL_DENSITIES"
  by (simp add: MATERIAL_INFO_def MATERIAL_DENSITIES_def)

lemma dict_getitem_member:
  "distinct (map fst d) \<Longrightarrow> (k, v) \<in> set d \<Longrightarrow> dict_getitem d k = Inr v"
  by (simp add: dict_getitem_def)

lemma dict_getitem_missing:
  "k \<notin> set (map fst d) \<Longrightarrow> dict_getitem d k = Inl (KeyError k)"
  using map_of_eq_None_iff [of d k] by (simp add: dict_getitem_def)

lemma calculate_weight_member:
  "(m, d) \<in> set MATERIAL_DENSITIES \<Longrightarrow> calculate_weight v m = Inr (v * d)"
  by (simp add: calculate_weight_def dict_getitem_member [OF distinct_density_keys])

lemma list_comp_total:
  "list_comp (\<lambda>x. Inr (f x)) xs = Inr (map f xs)"
  by (induction xs) simp_all

lemma list_comp_cong:
  "(\<And>x. x \<in> set xs \<Longrightarrow> f x = g x) \<Longrightarrow> list_comp f xs = list_comp g xs"
  by (induction xs) (auto split: sum.splits)

lemma list_comp_getitem_keys:
  assumes "distinct (map fst d)"
  shows "list_comp (dict_getitem d) (map fst d) = Inr (map snd d)"
proof -
  have "list_comp (dict_getitem d) (map fst d) = list_comp (\<lambda>k. Inr (the (map_of d k))) (map fst d)"
  proof (rule list_comp_cong)
    fix k assume "k \<in> set (map fst d)"
    then obtain v where "(k, v) \<in> set d" by auto
    with assms have "map_of d k = Some v" by simp
    then show "dict_getitem d k = Inr (the (map_of d k))"
      by (simp add: dict_getitem_def)
  qed
  also have "\<dots> = Inr (map (\<lambda>k. the (map_of d k)) (map fst d))"
    by (rule list_comp_total)
  also have "map (\<lambda>k. the (map_of d k)) (map fst d) = map snd d"
    using assms by (auto simp: comp_def)
  finally show ?thesis .
qed

lemma list_comp_weights:
  "list_comp (calculate_weight v) (map fst MATERIAL_DENSITIES)
     = Inr (map (\<lambda>(m, d). v * d) MATERIAL_DENSITIES)"
proof -
  have "list_comp (calculate_weight v) (map fst MATERIAL_DENSITIES)
      = list_comp (\<lambda>m. Inr (v * the (map_of MATERIAL_DENSITIES m))) (map fst MATERIAL_DENSITIES)"
  proof (rule list_comp_cong)
    fix m assume "m \<in> set (map fst MATERIAL_DENSITIES)"
    then obtain d where d: "(m, d) \<in> set MATERIAL_DENSITIES" by auto
    with distinct_density_keys have "map_of MATERIAL_DENSITIES m = Some d" by simp
    with d show "calculate_weight v m = Inr (v * the (map_of MATERIAL_DENSITIES m))"
      by (simp add: calculate_weight_member)
  qed
  also have "\<dots> = Inr (map (\<lambda>m. v * the (map_of MATERIAL_DENSITIES m)) (map fst MATERIAL_DENSITIES))"
    by (rule list_comp_total)
  also have "map (\<lambda>m. v * the (map_of MATERIAL_DENSITIES m)) (map fst MATERIAL_DENSITIES)
      = map (\<lambda>(m, d). v * d) MATERIAL_DENSITIES"
    using distinct_density_keys by (auto simp: comp_def)
  finally show ?thesis .
qed


lemma info_member:
  assumes "(m, d) \<in> set MATERIAL_DENSITIES"
  shows "dict_getitem MATERIAL_INFO m = Inr (the (map_of MATERIAL_INFO m))"
proof -
  from assms have "m \<in> set (map fst MATERIAL_INFO)"
    unfolding info_keys by force
  then obtain i where "map_of MATERIAL_INFO m = Some i"
    using map_of_eq_None_iff [of MATERIAL_INFO m] by auto
  then show ?thesis by (simp add: dict_getitem_def)
qed

lemma weight_table_loop_rows:
  "set items \<subseteq> set MATERIAL_DENSITIES \<Longrightarrow>
   weight_table_loop v items acc = Inr (acc @ map (table_row v) items)"
proof (induction items arbitrary: acc)
  case Nil
  show ?case by simp
next
  case (Cons item items)
  obtain m d where item: "item = (m, d)" by (cases item)
  with Cons.prems have mem: "(m, d) \<in> set MATERIAL_DENSITIES" and rest: "set items \<subseteq> set MATERIAL_DENSITIES"
    by auto
  show ?case
    unfolding item
    by (simp add: calculate_weight_member [OF mem] info_member [OF mem] Cons.IH [OF rest] table_row_def)
qed

lemma weight_table_rows: "weight_table v = Inr (map (table_row v) MATERIAL_DENSITIES)"
  by (simp add: weight_table_def weight_table_loop_rows)

lemma chart_eq:
  "create_comparison_chart v =
     Inr \<lparr>bar_x = map fst MATERIAL_DENSITIES,
          bar_y = map (\<lambda>(m, d). v * d) MATERIAL_DENSITIES,
          marker_color = map snd MATERIAL_COLORS,
          customdata = map (\<lambda>(m, d). v * d / 31.1035) MATERIAL_DENSITIES\<rparr>"
proof -
  have "distinct (map fst MATERIAL_COLORS)"
    unfolding color_keys by (rule distinct_density_keys)
  from list_comp_getitem_keys [OF this]
  have "list_comp (dict_getitem MATERIAL_COLORS) (map fst MATERIAL_DENSITIES) = Inr (map snd MATERIAL_COLORS)"
    unfolding color_keys .
  then show ?thesis
    by (simp add: create_comparison_chart_def list_comp_weights case_prod_beta)
qed

section \<open>Translation of a closed mesh\<close>











section \<open>Reversed winding\<close>







section \<open>The cube and small facts about moved and flipped meshes\<close>







section \<open>Properties of the rounding\<close>

text \<open>
  The exponent found by \<open>ilog2\<close> is the right one, and rounding to a spacing \<open>q\<close>
  moves a number by at most half of \<open>q\<close>. Some known roundings follow: one tenth in
  both formats, ties going to the even neighbour, overflow, and subnormal numbers.
\<close>

lemmas fl_eval = f32_def f64_def round_fl_def check_range_def round_quantum_def
  nearest_even_def ilog2_def compute_bitlen pow2_def

lemma ilog2_bounds:
  assumes "0 < a"
  shows "pow2 (ilog2 a) \<le> a \<and> a < pow2 (ilog2 a + 1)"
proof (cases "1 \<le> a")
  case True
  define n where "n = \<lfloor>a\<rfloor>"
  have n: "0 < n" "real_of_int n \<le> a" "a < real_of_int n + 1"
    using True unfolding n_def by linarith+
  from bitlen_bounds [OF n(1)]
  have lo: "2 ^ nat (bitlen n - 1) \<le> n" and hi: "n < 2 ^ nat (bitlen n)" by auto
  have pos: "1 \<le> bitlen n"
    using n(1) by (simp add: bitlen_alt_def)
  have "real_of_int (2 ^ nat (bitlen n - 1)) \<le> real_of_int n"
    using lo by (simp only: of_int_le_iff)
  then have "(2::real) ^ nat (bitlen n - 1) \<le> real_of_int n"
    by simp
  with n(2) have "(2::real) ^ nat (bitlen n - 1) \<le> a"
    by linarith
  then have low: "pow2 (bitlen n - 1) \<le> a"
    using pos by (simp add: pow2_def)
  have "n + 1 \<le> 2 ^ nat (bitlen n)" using hi by simp
  then have "real_of_int (n + 1) \<le> real_of_int (2 ^ nat (bitlen n))"
    by (simp only: of_int_le_iff)
  then have "real_of_int n + 1 \<le> (2::real) ^ nat (bitlen n)"
    by simp
  with n(3) have "a < (2::real) ^ nat (bitlen n)"
    by linarith
  then have high: "a < pow2 (bitlen n)"
    using pos by (simp add: pow2_def)
  from low high True show ?thesis
    by (simp add: ilog2_def n_def)
next
  case False
  define y where "y = 1 / a"
  define c where "c = \<lceil>y\<rceil> - 1"
  have y: "1 < y" using False assms by (simp add: y_def)
  have c: "0 < c" "real_of_int c < y" "y \<le> real_of_int c + 1"
    using y unfolding c_def by linarith+
  define k where "k = bitlen c"
  from bitlen_bounds [OF c(1)]
  have lo: "2 ^ nat (k - 1) \<le> c" and hi: "c < 2 ^ nat k" by (auto simp: k_def)
  have pos: "1 \<le> k"
    using c(1) by (simp add: bitlen_alt_def k_def)
  have "c + 1 \<le> 2 ^ nat k" using hi by simp
  then have "real_of_int (c + 1) \<le> real_of_int (2 ^ nat k)"
    by (simp only: of_int_le_iff)
  then have "real_of_int c + 1 \<le> (2::real) ^ nat k"
    by simp
  with c(3) have "y \<le> 2 ^ nat k" by linarith
  then have "1 / 2 ^ nat k \<le> a"
    using assms by (simp add: y_def field_simps)
  then have low: "pow2 (- k) \<le> a"
    using pos by (simp add: pow2_def)
  have "real_of_int (2 ^ nat (k - 1)) \<le> real_of_int c"
    using lo by (simp only: of_int_le_iff)
  then have "(2::real) ^ nat (k - 1) \<le> real_of_int c"
    by simp
  with c(2) have "2 ^ nat (k - 1) < y" by linarith
  then have "a < 1 / 2 ^ nat (k - 1)"
    using assms by (simp add: y_def field_simps)
  moreover have "pow2 (- k + 1) = 1 / 2 ^ nat (k - 1)"
    using pos by (cases "k = 1") (simp_all add: pow2_def)
  ultimately have high: "a < pow2 (- k + 1)" by simp
  from low high False show ?thesis
    by (simp add: ilog2_def k_def c_def y_def)
qed


lemma nearest_even_close: "\<bar>real_of_int (nearest_even k \<lfloor>k\<rfloor>) - k\<bar> \<le> 1 / 2"
  unfolding nearest_even_def by (auto; linarith)

lemma round_quantum_close:
  assumes "0 < q"
  shows "\<bar>round_quantum q a - a\<bar> \<le> q / 2"
proof -
  have "round_quantum q a - a = (real_of_int (nearest_even (a / q) \<lfloor>a / q\<rfloor>) - a / q) * q"
    using assms by (simp add: round_quantum_def algebra_simps)
  then have "\<bar>round_quantum q a - a\<bar> = \<bar>real_of_int (nearest_even (a / q) \<lfloor>a / q\<rfloor>) - a / q\<bar> * q"
    using assms by (simp add: abs_mult)
  also have "\<dots> \<le> 1 / 2 * q"
    using assms nearest_even_close [of "a / q"] by (intro mult_right_mono) simp_all
  finally show ?thesis by simp
qed

lemma f32_examples:
  "f32 0.1 = Some (13421773 / 134217728)"
  "f32 16777217 = Some 16777216"
  "f32 16777219 = Some 16777220"
  "f32 (- 99999999.75) = Some (- 100000000)"
  "f32 (2 ^ 128) = None"
  "f32 (1 / 2 ^ 150) = Some 0"
  "f32 (3 / 2 ^ 150) = Some (1 / 2 ^ 148)"
  by (simp_all add: fl_eval)

lemma f64_examples:
  "f64 0.1 = Some (3602879701896397 / 36028797018963968)"
  "f64 9007199254740993 = Some 9007199254740992"
  by (simp_all add: fl_eval)

text \<open>
  Rounding keeps the sign, so the rounded reading of the volume routine never returns a
  negative number either.
\<close>

lemma nearest_even_nonneg: "0 \<le> k \<Longrightarrow> 0 \<le> nearest_even k \<lfloor>k\<rfloor>"
  unfolding nearest_even_def by (auto; linarith)

lemma round_fl_nonneg:
  assumes "0 \<le> x" and "round_fl p emin emax x = Some r"
  shows "0 \<le> r"
proof (cases "x = 0")
  case True
  with assms(2) show ?thesis by (simp add: round_fl_def)
next
  case False
  with assms(1) have pos: "0 < x" by simp
  let ?q = "pow2 (max emin (ilog2 \<bar>x\<bar>) - int p + 1)"
  have q: "0 < ?q" by (simp add: pow2_def)
  have "0 \<le> \<bar>x\<bar> / ?q" using q by simp
  then have "0 \<le> nearest_even (\<bar>x\<bar> / ?q) \<lfloor>\<bar>x\<bar> / ?q\<rfloor>"
    by (rule nearest_even_nonneg)
  then have "0 \<le> round_quantum ?q \<bar>x\<bar>"
    using q by (simp add: round_quantum_def)
  with assms(2) pos False show ?thesis
    by (auto simp: round_fl_def check_range_def split: if_splits)
qed

lemma calculate_stl_volume_fp_nonneg:
  assumes "calculate_stl_volume_fp (round_fl p emin emax) m = Some r"
  shows "0 \<le> r"
proof -
  from assms obtain v where "round_fl p emin emax (\<bar>v\<bar> / 6) = Some r"
    by (auto simp: calculate_stl_volume_fp_def split: Option.bind_splits)
  then show ?thesis
    by (rule round_fl_nonneg [rotated]) simp
qed

section \<open>Rounded volumes of the cube\<close>













section \<open>The claims\<close>

text \<open>
  Claim C1. For every mesh the computed volume is the signed-tetrahedron formula: the
  scalar triple products of all triangles are summed and the result is the absolute
  value of the sum divided by six; hence the volume is never negative.
\<close>

theorem calculate_stl_volume_formula:
  "calculate_stl_volume m = \<bar>\<Sum>t\<leftarrow>vectors m. triple_product t\<bar> / 6
   \<and> 0 \<le> calculate_stl_volume m"
  by (simp add: calculate_stl_volume_def volume_loop_sum)

text \<open>
  Claim C2. For every volume \<open>v \<ge> 0\<close> and every material of the registry,
  \<open>calculate_weight\<close> returns \<open>v\<close> times the density the registry holds for
  that material.
\<close>

theorem calculate_weight_registered:
  assumes "(m, d) \<in> set MATERIAL_DENSITIES" and "0 \<le> v"
  shows "calculate_weight v m = Inr (v * d)"
  using assms(1) by (rule calculate_weight_member)

text \<open>The theorem at 100 cubic millimetres of 24K gold.\<close>

theorem calculate_weight_registered_witness:
  "(''24K Gold'', 0.0193) \<in> set MATERIAL_DENSITIES \<and> (0::real) \<le> 100
   \<and> calculate_weight 100 ''24K Gold'' = Inr (100 * 0.0193)"
proof -
  have mem: "(''24K Gold'', 0.0193) \<in> set MATERIAL_DENSITIES"
    by (simp add: MATERIAL_DENSITIES_def)
  have nonneg: "(0::real) \<le> 100" by simp
  from calculate_weight_registered [OF mem nonneg] mem nonneg show ?thesis by blast
qed

text \<open>
  Claim C3, as the code has it. \<open>calculate_weight\<close> checks nothing about the volume:
  for a registered material and a negative volume it returns the product, a negative
  number of grams, and raises nothing.
\<close>

theorem calculate_weight_negative:
  assumes "(m, d) \<in> set MATERIAL_DENSITIES" and "v < 0"
  shows "calculate_weight v m = Inr (v * d) \<and> v * d < 0"
proof -
  from assms(1) have "0 < d"
    by (auto simp: MATERIAL_DENSITIES_def)
  with assms(2) have "v * d < 0"
    by (simp add: mult_less_0_iff)
  with calculate_weight_member [OF assms(1)] show ?thesis by simp
qed

text \<open>The theorem at \<open>-2.5\<close> cubic millimetres of palladium.\<close>

theorem calculate_weight_negative_witness:
  "(''Palladium'', 0.0120) \<in> set MATERIAL_DENSITIES \<and> (- 2.5::real) < 0
   \<and> calculate_weight (- 2.5) ''Palladium'' = Inr (- 2.5 * 0.0120)"
proof -
  have mem: "(''Palladium'', 0.0120) \<in> set MATERIAL_DENSITIES"
    by (simp add: MATERIAL_DENSITIES_def)
  have neg: "(- 2.5::real) < 0" by simp
  from calculate_weight_negative [OF mem neg] mem neg show ?thesis by blast
qed

text \<open>
  The claim as the specification states it asks for a failure at volume \<open>-1.0\<close> and
  material 18K Gold. The code returns \<open>-0.0154\<close> there.
\<close>

theorem negative_volume_counterexample:
  "calculate_weight (- 1) ''18K Gold'' = Inr (- 0.0154)
   \<and> \<not> isl (calculate_weight (- 1) ''18K Gold'')"
  by (simp add: calculate_weight_def dict_getitem_def MATERIAL_DENSITIES_def)

text \<open>
  Claim C4. An identifier that is not a key of \<open>MATERIAL_DENSITIES\<close> makes the lookup,
  and with it \<open>calculate_weight\<close>, raise \<open>KeyError\<close> with that identifier: no
  number is returned, so no default density is used. A key of the registry yields the
  density stored with it.
\<close>

theorem density_lookup:
  "(m \<notin> set (map fst MATERIAL_DENSITIES) \<longrightarrow>
      dict_getitem MATERIAL_DENSITIES m = Inl (KeyError m)
      \<and> calculate_weight v m = Inl (KeyError m))
   \<and> ((m, d) \<in> set MATERIAL_DENSITIES \<longrightarrow> dict_getitem MATERIAL_DENSITIES m = Inr d)"
  by (simp add: calculate_weight_def dict_getitem_missing
      dict_getitem_member [OF distinct_density_keys])

text \<open>The theorem at an unknown identifier and at 18K Gold.\<close>

theorem density_lookup_witness:
  "''NotARealMaterial'' \<notin> set (map fst MATERIAL_DENSITIES)
   \<and> dict_getitem MATERIAL_DENSITIES ''NotARealMaterial'' = Inl (KeyError ''NotARealMaterial'')
   \<and> calculate_weight 100 ''NotARealMaterial'' = Inl (KeyError ''NotARealMaterial'')
   \<and> (''18K Gold'', 0.0154) \<in> set MATERIAL_DENSITIES
   \<and> dict_getitem MATERIAL_DENSITIES ''18K Gold'' = Inr 0.0154"
proof -
  have missing: "''NotARealMaterial'' \<notin> set (map fst MATERIAL_DENSITIES)"
    by (simp add: MATERIAL_DENSITIES_def)
  have mem: "(''18K Gold'', 0.0154) \<in> set MATERIAL_DENSITIES"
    by (simp add: MATERIAL_DENSITIES_def)
  from density_lookup [where m = "''NotARealMaterial''" and v = 100]
    density_lookup [where m = "''18K Gold''" and d = "0.0154"] missing mem
  show ?thesis by blast
qed







text \<open>
  Claim C7. For every volume \<open>v\<close> the table of \<open>main\<close> and the comparison chart
  hold one entry per material of the registry, in the order of the registry, and the
  grams of each entry are \<open>v\<close> times the density of its material.
\<close>

theorem comparison_entries:
  "(\<exists>rows. weight_table v = Inr rows
      \<and> map (\<lambda>r. (row_material r, row_weight_g r)) rows
          = map (\<lambda>(m, d). (m, v * d)) MATERIAL_DENSITIES)
   \<and> (\<exists>chart. create_comparison_chart v = Inr chart
      \<and> zip (bar_x chart) (bar_y chart) = map (\<lambda>(m, d). (m, v * d)) MATERIAL_DENSITIES)"
  by (simp add: weight_table_rows chart_eq table_row_def zip_map_map case_prod_beta
      zip_same_conv_map)

text \<open>
  Claim C9. For every volume \<open>v\<close> and every material of the registry, with density
  \<open>d\<close>, the troy ounces are the grams \<open>v * d\<close> divided by 31.1035 and the pennyweight
  is the grams divided by 1.55517: in every row of the table, in the chart and in the
  calculator. A mass of 31.1035 grams is one troy ounce, whatever the material.
\<close>

theorem unit_conversions:
  "(\<exists>rows. weight_table v = Inr rows
      \<and> map (\<lambda>r. (row_material r, row_troy_oz r, row_dwt r)) rows
          = map (\<lambda>(m, d). (m, v * d / 31.1035, v * d / 1.55517)) MATERIAL_DENSITIES)
   \<and> (\<exists>chart. create_comparison_chart v = Inr chart
      \<and> bar_x chart = map fst MATERIAL_DENSITIES
      \<and> customdata chart = map (\<lambda>(m, d). v * d / 31.1035) MATERIAL_DENSITIES)
   \<and> map (\<lambda>(m, d). quick_calculator v m) MATERIAL_DENSITIES
       = map (\<lambda>(m, d). Inr (v * d, v * d / 31.1035, v * d / 1.55517)) MATERIAL_DENSITIES
   \<and> map (\<lambda>(m, d). quick_calculator (31.1035 * 1 / d) m) MATERIAL_DENSITIES
       = map (\<lambda>(m, d). Inr (31.1035, 1, 31.1035 / 1.55517)) MATERIAL_DENSITIES"
proof -
  have calc: "quick_calculator w m = Inr (w * d, w * d / 31.1035, w * d / 1.55517)"
    if "(m, d) \<in> set MATERIAL_DENSITIES" for w m d
    using that by (simp add: quick_calculator_def calculate_weight_member)
  have positive: "d \<noteq> 0" if "(m, d) \<in> set MATERIAL_DENSITIES" for m d
    using that by (auto simp: MATERIAL_DENSITIES_def)
  have rows: "\<exists>rows. weight_table v = Inr rows
      \<and> map (\<lambda>r. (row_material r, row_troy_oz r, row_dwt r)) rows
          = map (\<lambda>(m, d). (m, v * d / 31.1035, v * d / 1.55517)) MATERIAL_DENSITIES"
    by (simp add: weight_table_rows table_row_def case_prod_beta)
  have chart: "\<exists>chart. create_comparison_chart v = Inr chart
      \<and> bar_x chart = map fst MATERIAL_DENSITIES
      \<and> customdata chart = map (\<lambda>(m, d). v * d / 31.1035) MATERIAL_DENSITIES"
    by (simp add: chart_eq)
  have calculator: "map (\<lambda>(m, d). quick_calculator v m) MATERIAL_DENSITIES
       = map (\<lambda>(m, d). Inr (v * d, v * d / 31.1035, v * d / 1.55517)) MATERIAL_DENSITIES"
    by (rule map_cong) (auto simp: calc)
  have ounce: "map (\<lambda>(m, d). quick_calculator (31.1035 * 1 / d) m) MATERIAL_DENSITIES
       = map (\<lambda>(m, d). Inr (31.1035, 1, 31.1035 / 1.55517)) MATERIAL_DENSITIES"
    by (rule map_cong) (auto simp: calc positive)
  from rows chart calculator ounce show ?thesis by blast
qed

text \<open>
  Claim C10. The colour table and the description table have the keys of the density
  registry, so the colour looked up for every bar of the chart and the description
  looked up for every row of the table are found.
\<close>

theorem material_tables_same_keys:
  "set (map fst MATERIAL_COLORS) = set (map fst MATERIAL_DENSITIES)
   \<and> set (map fst MATERIAL_INFO) = set (map fst MATERIAL_DENSITIES)
   \<and> (\<exists>chart. create_comparison_chart v = Inr chart
        \<and> marker_color chart = map snd MATERIAL_COLORS)
   \<and> (\<exists>rows. weight_table v = Inr rows \<and> map row_info rows = map snd MATERIAL_INFO)"
proof -
  have "distinct (map fst MATERIAL_INFO)"
    unfolding info_keys by (rule distinct_density_keys)
  then have "map (\<lambda>k. the (map_of MATERIAL_INFO k)) (map fst MATERIAL_INFO) = map snd MATERIAL_INFO"
    by (auto simp: comp_def)
  then have "map (\<lambda>item. the (map_of MATERIAL_INFO (fst item))) MATERIAL_DENSITIES = map snd MATERIAL_INFO"
    unfolding info_keys by (simp add: comp_def)
  then show ?thesis
    by (simp add: color_keys info_keys chart_eq weight_table_rows table_row_def comp_def)
qed

end
